theory Spec2Isabelle
  imports Main
begin

section \<open>The contact backend of \<open>main.py\<close>\<close>

text \<open>
  The module defines four HTTP handlers. Two return a constant greeting, \<open>test_database\<close>
  probes the document store and \<open>submit_contact\<close> persists a contact message and then
  tries to relay it by e-mail. The handlers talk to three things outside the module: the
  process environment (\<open>os.getenv\<close>), the document store (\<open>create_document\<close> and
  \<open>db\<close> of the module \<open>database\<close>) and an SMTP server (\<open>smtplib.SMTP\<close>).

  A Python \<open>str\<close> is modelled as a \<open>string\<close>, one \<open>char\<close> for one code point,
  so \<open>take n\<close> is the slice \<open>[:n]\<close>. Every exception of the model is an instance of
  Python's class \<open>Exception\<close>, which is what the \<open>except Exception\<close> clauses of the
  module catch.
\<close>

subsection \<open>Exceptions\<close>

datatype exn =
    ImportError string
  | ValueError string
  | UnicodeEncodeError string
  | Error string  \<comment> \<open>any other exception raised by a collaborator, with its text\<close>

text \<open>\<open>str(e)\<close>\<close>

fun str_exn :: "exn \<Rightarrow> string" where
  "str_exn (ImportError s) = s"
| "str_exn (ValueError s) = s"
| "str_exn (UnicodeEncodeError s) = s"
| "str_exn (Error s) = s"

subsection \<open>Data\<close>

text \<open>The pydantic model \<open>ContactIn\<close>, after validation.\<close>

record ContactIn =
  name :: string
  email :: string
  subject :: "string option"
  message :: string

text \<open>
  The JSON body of a request before validation. A field is absent (or \<open>null\<close>), or it
  holds a JSON string.
\<close>

record contact_body =
  body_name :: "string option"
  body_email :: "string option"
  body_subject :: "string option"
  body_message :: "string option"

text \<open>The dictionary \<open>doc\<close> handed to \<open>create_document\<close>; its four keys are fixed.\<close>

record contact_doc =
  doc_name :: string
  doc_email :: string
  doc_subject :: "string option"
  doc_message :: string

text \<open>
  The \<open>MIMEText\<close> message: the plain-text body and the three headers the code sets.
  \<open>From\<close> is \<open>formataddr((name, user))\<close>, kept as the pair.
\<close>

record mime_text =
  msg_body :: string
  msg_subject :: string
  msg_from :: "string \<times> string"
  msg_to :: string

text \<open>The response dictionary of \<open>submit_contact\<close>.\<close>

record submission_result =
  ok :: bool
  email_sent :: bool

text \<open>
  What the client of \<open>POST /contact\<close> receives: the returned dictionary (status 200),
  the \<open>HTTPException\<close> the handler raised, with its status code and detail, or the
  framework's answer to a body that does not validate against \<open>ContactIn\<close> (status 422).
\<close>

datatype contact_response =
    Returned submission_result
  | HTTPException nat string
  | RequestValidationError

subsection \<open>The world outside the module\<close>

text \<open>
  Every call that leaves the process is an event. A handler takes the events that happened
  so far and returns them extended by the calls it made, in order; a call is recorded when
  it is made, whether or not it raises.
\<close>

datatype event =
    CreateDocument string contact_doc  \<comment> \<open>\<open>await create_document(kind, doc)\<close>\<close>
  | SMTP_connect string int  \<comment> \<open>\<open>smtplib.SMTP(host, port)\<close>\<close>
  | SMTP_starttls
  | SMTP_login string string
  | SMTP_sendmail string "string list" mime_text
  | SMTP_quit  \<comment> \<open>\<open>SMTP.__exit__\<close>, which sends \<open>QUIT\<close>\<close>

fun is_store :: "event \<Rightarrow> bool" where
  "is_store (CreateDocument k d) = True"
| "is_store ev = False"

fun is_smtp :: "event \<Rightarrow> bool" where
  "is_smtp (CreateDocument k d) = False"
| "is_smtp ev = True"

text \<open>
  The collaborators are parameters of the model. \<open>getenv\<close> is the process environment.
  \<open>validate_email\<close> is the check behind pydantic's \<open>EmailStr\<close>: \<open>None\<close> for an
  address that is not syntactically valid, otherwise the address as the validated model
  holds it. \<open>outcome\<close> decides every external call from the events before it:
  \<open>None\<close> when the call returns, \<open>Some e\<close> when it raises \<open>e\<close>.
\<close>

record world =
  getenv :: "string \<Rightarrow> string option"
  validate_email :: "string \<Rightarrow> string option"
  outcome :: "event list \<Rightarrow> event \<Rightarrow> exn option"

definition call :: "world \<Rightarrow> event \<Rightarrow> event list \<Rightarrow> (exn + unit) \<times> event list" where
  "call w ev t =
     (case outcome w t ev of
        None \<Rightarrow> (Inr (), t @ [ev])
      | Some e \<Rightarrow> (Inl e, t @ [ev]))"

subsection \<open>Python's \<open>int\<close> on a string and truth of an optional string\<close>

definition is_space :: "char \<Rightarrow> bool" where
  "is_space c =
     (let n = (of_char c :: nat)
      in (9 \<le> n \<and> n \<le> 13) \<or> (28 \<le> n \<and> n \<le> 32) \<or> n = 133 \<or> n = 160)"

definition is_digit :: "char \<Rightarrow> bool" where
  "is_digit c = (48 \<le> (of_char c :: nat) \<and> (of_char c :: nat) \<le> 57)"

definition digit_val :: "char \<Rightarrow> nat" where
  "digit_val c = of_char c - 48"

text \<open>
  The digits of a decimal literal after the first one: a single underscore may stand
  between two digits.
\<close>

fun py_digits :: "nat \<Rightarrow> string \<Rightarrow> nat option" where
  "py_digits acc [] = Some acc"
| "py_digits acc [c] = (if is_digit c then Some (10 * acc + digit_val c) else None)"
| "py_digits acc (c # d # cs) =
     (if is_digit c then py_digits (10 * acc + digit_val c) (d # cs)
      else if c = CHR ''_'' \<and> is_digit d then py_digits (10 * acc + digit_val d) cs
      else None)"

text \<open>
  \<open>int(s)\<close> in base 10: surrounding white space is dropped, one sign is allowed, and
  the rest must be a decimal literal. \<open>None\<close> is the \<open>ValueError\<close>. (The interpreter's
  limit on the number of digits is not modelled.)
\<close>

definition py_int :: "string \<Rightarrow> int option" where
  "py_int s =
     (let s1 = dropWhile is_space s;
          neg = (case s1 of [] \<Rightarrow> False | c # cs \<Rightarrow> c = CHR ''-'');
          s2 = (case s1 of [] \<Rightarrow> []
                | c # cs \<Rightarrow> if c = CHR ''+'' \<or> c = CHR ''-'' then cs else s1);
          s3 = rev (dropWhile is_space (rev s2))
      in case s3 of
           [] \<Rightarrow> None
         | c # cs \<Rightarrow>
             if is_digit c
             then (case py_digits (digit_val c) cs of
                     None \<Rightarrow> None
                   | Some n \<Rightarrow> Some (if neg then - int n else int n))
             else None)"

text \<open>\<open>not v\<close> for an optional string: \<open>None\<close> and the empty string are false.\<close>

definition falsy :: "string option \<Rightarrow> bool" where
  "falsy v = (case v of None \<Rightarrow> True | Some s \<Rightarrow> s = [])"

text \<open>\<open>v or d\<close> for an optional string \<open>v\<close> and a string \<open>d\<close>.\<close>

definition or_default :: "string option \<Rightarrow> string \<Rightarrow> string" where
  "or_default v d = (case v of None \<Rightarrow> d | Some s \<Rightarrow> if s = [] then d else s)"

subsection \<open>\<open>send_email_via_smtp\<close>\<close>

text \<open>
  The body of the \<open>with\<close> block: \<open>starttls\<close>, \<open>login\<close>, \<open>sendmail\<close>, stopping at the
  first call that raises.
\<close>

definition smtp_block ::
  "world \<Rightarrow> string \<Rightarrow> string \<Rightarrow> string \<Rightarrow> mime_text \<Rightarrow> event list \<Rightarrow> (exn + unit) \<times> event list"
where
  "smtp_block w user password to_email msg t =
     (case call w SMTP_starttls t of
        (Inl e, t1) \<Rightarrow> (Inl e, t1)
      | (Inr u, t1) \<Rightarrow>
          (case call w (SMTP_login user password) t1 of
             (Inl e, t2) \<Rightarrow> (Inl e, t2)
           | (Inr u, t2) \<Rightarrow> call w (SMTP_sendmail user [to_email] msg) t2))"

text \<open>
  \<open>with smtplib.SMTP(host, port) as server: ...\<close>. When the constructor raises, the block
  is not entered. Otherwise \<open>__exit__\<close> runs after the block, however the block ended;
  it returns nothing, so an exception of the block is raised again, unless \<open>__exit__\<close>
  raises one of its own.
\<close>

definition smtp_with ::
  "world \<Rightarrow> string \<Rightarrow> int \<Rightarrow> string \<Rightarrow> string \<Rightarrow> string \<Rightarrow> mime_text \<Rightarrow> event list
     \<Rightarrow> (exn + unit) \<times> event list"
where
  "smtp_with w host port user password to_email msg t =
     (case call w (SMTP_connect host port) t of
        (Inl e, t1) \<Rightarrow> (Inl e, t1)
      | (Inr u, t1) \<Rightarrow>
          (case smtp_block w user password to_email msg t1 of
             (r, t2) \<Rightarrow>
               (case call w SMTP_quit t2 of
                  (Inl e', t3) \<Rightarrow> (Inl e', t3)
                | (Inr u', t3) \<Rightarrow> (r, t3))))"

text \<open>\<open>formataddr\<close> encodes the address as ASCII and raises when it cannot.\<close>

definition formataddr :: "string \<times> string \<Rightarrow> exn + string \<times> string" where
  "formataddr p =
     (if list_ex (\<lambda>c. 128 \<le> (of_char c :: nat)) (snd p)
      then Inl (UnicodeEncodeError ''ascii'')
      else Inr p)"

text \<open>
  Lines 96 to 107, past the configuration test: compose the message, run the SMTP session
  and return \<open>True\<close>.
\<close>

definition send_configured ::
  "world \<Rightarrow> string \<Rightarrow> int \<Rightarrow> string \<Rightarrow> string \<Rightarrow> string
     \<Rightarrow> string \<Rightarrow> string \<Rightarrow> string \<Rightarrow> string \<Rightarrow> event list \<Rightarrow> (exn + bool) \<times> event list"
where
  "send_configured w host port user password to_email nm em subj msg t =
     (let full_subject = or_default (Some subj) ''New Portfolio Contact Message'';
          body = ''Name: '' @ nm @ [CHR 0x0A] @ ''Email: '' @ em
                   @ [CHR 0x0A, CHR 0x0A] @ ''Message:'' @ [CHR 0x0A] @ msg
      in case formataddr (nm, user) of
           Inl e \<Rightarrow> (Inl e, t)
         | Inr from_hdr \<Rightarrow>
             (case smtp_with w host port user password to_email
                     \<lparr>msg_body = body, msg_subject = full_subject,
                      msg_from = from_hdr, msg_to = to_email\<rparr> t of
                (Inl e, t') \<Rightarrow> (Inl e, t')
              | (Inr u, t') \<Rightarrow> (Inr True, t')))"

text \<open>
  The whole function: read the configuration, return \<open>False\<close> when a setting is missing,
  send otherwise. \<open>int(...)\<close> of the port is evaluated before the test. Past the test
  the four settings are non-empty strings.
\<close>

definition send_email_via_smtp ::
  "world \<Rightarrow> string \<Rightarrow> string \<Rightarrow> string \<Rightarrow> string \<Rightarrow> event list \<Rightarrow> (exn + bool) \<times> event list"
where
  "send_email_via_smtp w nm em subj msg t =
     (let host = getenv w ''SMTP_HOST'';
          port_text = (case getenv w ''SMTP_PORT'' of None \<Rightarrow> ''587'' | Some p \<Rightarrow> p)
      in case py_int port_text of
           None \<Rightarrow> (Inl (ValueError port_text), t)
         | Some port \<Rightarrow>
             (let user = getenv w ''SMTP_USER'';
                  password = getenv w ''SMTP_PASS'';
                  to_email = (case getenv w ''SMTP_TO'' of None \<Rightarrow> user | Some v \<Rightarrow> Some v)
              in if falsy host \<or> falsy user \<or> falsy password \<or> falsy to_email
                 then (Inr False, t)
                 else send_configured w (the host) port (the user) (the password)
                        (the to_email) nm em subj msg t))"

subsection \<open>\<open>submit_contact\<close>\<close>

text \<open>
  Validation against \<open>ContactIn\<close>, done by the framework before the handler runs.
  \<open>name\<close> and \<open>message\<close> are plain \<open>str\<close> fields: they are required, and any string is
  accepted. \<open>email\<close> is an \<open>EmailStr\<close>. \<open>subject\<close> is optional and defaults to \<open>None\<close>.
\<close>

definition validate :: "world \<Rightarrow> contact_body \<Rightarrow> ContactIn option" where
  "validate w b =
     (case body_name b of
        None \<Rightarrow> None
      | Some nm \<Rightarrow>
          (case body_email b of
             None \<Rightarrow> None
           | Some raw \<Rightarrow>
               (case validate_email w raw of
                  None \<Rightarrow> None
                | Some em \<Rightarrow>
                    (case body_message b of
                       None \<Rightarrow> None
                     | Some msg \<Rightarrow>
                         Some \<lparr>name = nm, email = em, subject = body_subject b,
                               message = msg\<rparr>))))"

definition submit_contact ::
  "world \<Rightarrow> ContactIn \<Rightarrow> event list \<Rightarrow> contact_response \<times> event list"
where
  "submit_contact w payload t =
     (let doc = \<lparr>doc_name = name payload, doc_email = email payload,
                 doc_subject = subject payload, doc_message = message payload\<rparr>
      in case call w (CreateDocument ''contactmessage'' doc) t of
           (Inl e, t1) \<Rightarrow>
             (HTTPException 500 (''Database error: '' @ take 120 (str_exn e)), t1)
         | (Inr u, t1) \<Rightarrow>
             (case send_email_via_smtp w (name payload) (email payload)
                     (or_default (subject payload) ''Portfolio Contact'')
                     (message payload) t1 of
                (Inl e, t2) \<Rightarrow> (Returned \<lparr>ok = True, email_sent = False\<rparr>, t2)
              | (Inr sent, t2) \<Rightarrow> (Returned \<lparr>ok = True, email_sent = sent\<rparr>, t2)))"

text \<open>\<open>POST /contact\<close>: the framework validates the body, then calls the handler.\<close>

definition post_contact ::
  "world \<Rightarrow> contact_body \<Rightarrow> event list \<Rightarrow> contact_response \<times> event list"
where
  "post_contact w b t =
     (case validate w b of
        None \<Rightarrow> (RequestValidationError, t)
      | Some payload \<Rightarrow> submit_contact w payload t)"

subsection \<open>\<open>test_database\<close>\<close>

text \<open>
  The values of the response dictionary: \<open>None\<close>, a string, or a list of collection
  names. The dictionary itself is a map from keys to values.
\<close>

datatype json = JNull | JString string | JList "string list"

type_synonym response = "string \<Rightarrow> json option"

text \<open>
  The handle \<open>db\<close> of the module \<open>database\<close>, as far as the probe looks at it:
  its attribute \<open>name\<close>, when it has one, and what \<open>list_collection_names()\<close> does.
\<close>

record database =
  db_name :: "string option"
  list_collection_names :: "exn + string list"

text \<open>
  \<open>from database import db\<close> raises, or binds \<open>db\<close> to \<open>None\<close> or to a handle.
\<close>

datatype db_import = ImportRaises exn | Imported "database option"

text \<open>The pictographs of the status texts, as their UTF-8 bytes.\<close>

definition check_mark :: string where
  "check_mark = [CHR 0xE2, CHR 0x9C, CHR 0x85]"

definition cross_mark :: string where
  "cross_mark = [CHR 0xE2, CHR 0x9D, CHR 0x8C]"

definition warning_sign :: string where
  "warning_sign = [CHR 0xE2, CHR 0x9A, CHR 0xA0, CHR 0xEF, CHR 0xB8, CHR 0x8F]"

text \<open>The inner \<open>try\<close>: list the collections, and turn any exception into a status text.\<close>

definition probe_collections :: "database \<Rightarrow> response \<Rightarrow> response" where
  "probe_collections db r =
     (case list_collection_names db of
        Inr collections \<Rightarrow>
          (r(''collections'' \<mapsto> JList (take 10 collections)))
            (''database'' \<mapsto> JString (check_mark @ '' Connected & Working''))
      | Inl e \<Rightarrow>
          r(''database'' \<mapsto>
              JString (warning_sign @ ''  Connected but Error: '' @ take 50 (str_exn e))))"

text \<open>
  The body of the outer \<open>try\<close>. It returns the exception that left it, if any, and the
  dictionary as the body left it.
\<close>

definition try_import :: "db_import \<Rightarrow> response \<Rightarrow> exn option \<times> response" where
  "try_import imp r =
     (case imp of
        ImportRaises e \<Rightarrow> (Some e, r)
      | Imported None \<Rightarrow>
          (None, r(''database'' \<mapsto>
                     JString (warning_sign @ ''  Available but not initialized'')))
      | Imported (Some db) \<Rightarrow>
          (None,
           probe_collections db
             (r(''database'' \<mapsto> JString (check_mark @ '' Available''),
                ''database_url'' \<mapsto> JString (check_mark @ '' Configured''),
                ''database_name'' \<mapsto>
                   (case db_name db of
                      Some n \<Rightarrow> JString n
                    | None \<Rightarrow> JString (check_mark @ '' Connected'')),
                ''connection_status'' \<mapsto> JString ''Connected''))))"

text \<open>The two \<open>except\<close> clauses of the outer \<open>try\<close>, in the order of the source.\<close>

fun except_import :: "exn \<Rightarrow> response \<Rightarrow> exn + response" where
  "except_import (ImportError s) r =
     Inr (r(''database'' \<mapsto>
              JString (cross_mark @ '' Database module not found (run enable-database first)'')))"
| "except_import e r =
     Inr (r(''database'' \<mapsto> JString (cross_mark @ '' Error: '' @ take 50 (str_exn e))))"

definition set_or_not :: "string option \<Rightarrow> json" where
  "set_or_not v =
     (if falsy v then JString (cross_mark @ '' Not Set'') else JString (check_mark @ '' Set''))"

text \<open>\<open>GET /test\<close>: \<open>Inl\<close> is an exception that leaves the handler, \<open>Inr\<close> its return.\<close>

definition test_database :: "world \<Rightarrow> db_import \<Rightarrow> exn + response" where
  "test_database w imp =
     (let response =
            [''backend'' \<mapsto> JString (check_mark @ '' Running''),
             ''database'' \<mapsto> JString (cross_mark @ '' Not Available''),
             ''database_url'' \<mapsto> JNull,
             ''database_name'' \<mapsto> JNull,
             ''connection_status'' \<mapsto> JString ''Not Connected'',
             ''collections'' \<mapsto> JList []]
      in case (case try_import imp response of
                 (None, r) \<Rightarrow> Inr r
               | (Some e, r) \<Rightarrow> except_import e r) of
           Inl e \<Rightarrow> Inl e
         | Inr r \<Rightarrow>
             Inr (r(''database_url'' \<mapsto> set_or_not (getenv w ''DATABASE_URL''),
                    ''database_name'' \<mapsto> set_or_not (getenv w ''DATABASE_NAME''))))"

subsection \<open>Concrete requests and worlds\<close>

text \<open>
  The request of the specification's scenarios, an address check that accepts exactly its
  address, and five worlds: mail not configured; mail configured and every call
  succeeding; the store refusing every write; the SMTP server refusing the login; and a
  port setting that is not a number.
\<close>

definition ada_body :: contact_body where
  "ada_body =
     \<lparr>body_name = Some ''Ada'', body_email = Some ''ada@example.com'',
      body_subject = None, body_message = Some ''Hello''\<rparr>"

definition accepts_ada :: "string \<Rightarrow> string option" where
  "accepts_ada s = (if s = ''ada@example.com'' then Some s else None)"

definition smtp_settings :: "string \<Rightarrow> string option" where
  "smtp_settings =
     [''SMTP_HOST'' \<mapsto> ''smtp.example.com'', ''SMTP_USER'' \<mapsto> ''me@example.com'',
      ''SMTP_PASS'' \<mapsto> ''secret'']"

definition unconfigured_world :: world where
  "unconfigured_world =
     \<lparr>getenv = (\<lambda>k. None), validate_email = accepts_ada, outcome = (\<lambda>t ev. None)\<rparr>"

definition configured_world :: world where
  "configured_world =
     \<lparr>getenv = smtp_settings, validate_email = accepts_ada, outcome = (\<lambda>t ev. None)\<rparr>"

definition store_down_world :: world where
  "store_down_world =
     \<lparr>getenv = smtp_settings, validate_email = accepts_ada,
      outcome = (\<lambda>t ev. if is_store ev then Some (Error ''connection refused'') else None)\<rparr>"

definition bad_login_world :: world where
  "bad_login_world =
     \<lparr>getenv = smtp_settings, validate_email = accepts_ada,
      outcome = (\<lambda>t ev. case ev of SMTP_login u p \<Rightarrow> Some (Error ''authentication failed'')
                         | _ \<Rightarrow> None)\<rparr>"

definition bad_port_world :: world where
  "bad_port_world =
     \<lparr>getenv = [''SMTP_PORT'' \<mapsto> ''abc''], validate_email = accepts_ada,
      outcome = (\<lambda>t ev. None)\<rparr>"

definition no_host_world :: world where
  "no_host_world =
     \<lparr>getenv = [''SMTP_PORT'' \<mapsto> ''2_5 '', ''SMTP_USER'' \<mapsto> ''me@example.com'',
                 ''SMTP_PASS'' \<mapsto> ''secret''],
      validate_email = accepts_ada, outcome = (\<lambda>t ev. None)\<rparr>"

text \<open>
  \<open>subject_is s ev\<close>: the event is not a \<open>sendmail\<close> of a message with a subject other
  than \<open>s\<close>.
\<close>

fun subject_is :: "string \<Rightarrow> event \<Rightarrow> bool" where
  "subject_is s (SMTP_sendmail u r m) = (msg_subject m = s)"
| "subject_is s ev = True"

section \<open>Properties\<close>

subsection \<open>The events of one call to the mail relay\<close>

lemma call_eq:
  "call w ev t = (case outcome w t ev of None \<Rightarrow> Inr () | Some e \<Rightarrow> Inl e, t @ [ev])"
  by (simp add: call_def split: option.splits)

lemma smtp_block_events:
  "\<exists>evs. snd (smtp_block w u pw rcpt m t) = t @ evs \<and> list_all is_smtp evs
      \<and> list_all (subject_is (msg_subject m)) evs"
  by (simp add: smtp_block_def call_eq split: option.splits)

lemma smtp_block_ok:
  "fst (smtp_block w u pw rcpt m t) = Inr x \<Longrightarrow>
   snd (smtp_block w u pw rcpt m t) =
     t @ [SMTP_starttls, SMTP_login u pw, SMTP_sendmail u [rcpt] m]"
  by (simp add: smtp_block_def call_eq split: option.splits)

lemma smtp_with_events:
  "\<exists>evs. snd (smtp_with w h p u pw rcpt m t) = t @ evs \<and> list_all is_smtp evs
      \<and> list_all (subject_is (msg_subject m)) evs"
proof -
  obtain evs where b:
    "snd (smtp_block w u pw rcpt m (t @ [SMTP_connect h p])) = (t @ [SMTP_connect h p]) @ evs"
    "list_all is_smtp evs" "list_all (subject_is (msg_subject m)) evs"
    using smtp_block_events by blast
  show ?thesis
    using b by (cases "smtp_block w u pw rcpt m (t @ [SMTP_connect h p])")
      (simp add: smtp_with_def call_eq split: option.splits)
qed

lemma smtp_with_ok:
  assumes "fst (smtp_with w h p u pw rcpt m t) = Inr x"
  shows "snd (smtp_with w h p u pw rcpt m t) =
     t @ [SMTP_connect h p, SMTP_starttls, SMTP_login u pw, SMTP_sendmail u [rcpt] m,
          SMTP_quit]"
proof (cases "smtp_block w u pw rcpt m (t @ [SMTP_connect h p])")
  case (Pair r t2)
  with assms have "r = Inr x"
    by (simp add: smtp_with_def call_eq split: option.splits)
  with Pair have "t2 = (t @ [SMTP_connect h p])
                        @ [SMTP_starttls, SMTP_login u pw, SMTP_sendmail u [rcpt] m]"
    using smtp_block_ok [of w u pw rcpt m "t @ [SMTP_connect h p]" x] by simp
  with Pair assms show ?thesis
    by (simp add: smtp_with_def call_eq split: option.splits)
qed

lemma send_configured_events:
  "\<exists>evs. snd (send_configured w h p u pw rcpt n e s m t) = t @ evs \<and> list_all is_smtp evs
      \<and> list_all (subject_is (or_default (Some s) ''New Portfolio Contact Message'')) evs"
proof (cases "formataddr (n, u)")
  case (Inl x)
  then show ?thesis by (simp add: send_configured_def)
next
  case (Inr hdr)
  let ?mm = "\<lparr>msg_body = ''Name: '' @ n @ [CHR 0x0A] @ ''Email: '' @ e
                   @ [CHR 0x0A, CHR 0x0A] @ ''Message:'' @ [CHR 0x0A] @ m,
               msg_subject = or_default (Some s) ''New Portfolio Contact Message'',
               msg_from = hdr, msg_to = rcpt\<rparr>"
  obtain evs where "snd (smtp_with w h p u pw rcpt ?mm t) = t @ evs" "list_all is_smtp evs"
     "list_all (subject_is (msg_subject ?mm)) evs"
    using smtp_with_events by blast
  with Inr show ?thesis
    by (cases "smtp_with w h p u pw rcpt ?mm t")
       (auto simp: send_configured_def split: sum.splits)
qed

lemma send_email_events:
  "\<exists>evs. snd (send_email_via_smtp w n e s m t) = t @ evs \<and> list_all is_smtp evs
      \<and> list_all (subject_is (or_default (Some s) ''New Portfolio Contact Message'')) evs"
  using send_configured_events
  by (simp add: send_email_via_smtp_def Let_def split: option.splits)

text \<open>
  When the relay reports success, the session was complete: connect, \<open>STARTTLS\<close>, login,
  one message to one recipient, \<open>QUIT\<close>.
\<close>

lemma send_configured_True:
  assumes "fst (send_configured w h p u pw rcpt n e s m t) = Inr x"
  shows "x \<and> snd (send_configured w h p u pw rcpt n e s m t) =
     t @ [SMTP_connect h p, SMTP_starttls, SMTP_login u pw,
          SMTP_sendmail u [rcpt]
            \<lparr>msg_body = ''Name: '' @ n @ [CHR 0x0A] @ ''Email: '' @ e
                   @ [CHR 0x0A, CHR 0x0A] @ ''Message:'' @ [CHR 0x0A] @ m,
             msg_subject = or_default (Some s) ''New Portfolio Contact Message'',
             msg_from = (n, u), msg_to = rcpt\<rparr>,
          SMTP_quit]"
proof (cases "formataddr (n, u)")
  case (Inl x)
  with assms show ?thesis by (simp add: send_configured_def)
next
  case (Inr hdr)
  then have hdr: "hdr = (n, u)" by (simp add: formataddr_def split: if_splits)
  let ?mm = "\<lparr>msg_body = ''Name: '' @ n @ [CHR 0x0A] @ ''Email: '' @ e
                   @ [CHR 0x0A, CHR 0x0A] @ ''Message:'' @ [CHR 0x0A] @ m,
               msg_subject = or_default (Some s) ''New Portfolio Contact Message'',
               msg_from = (n, u), msg_to = rcpt\<rparr>"
  obtain r t' where sw: "smtp_with w h p u pw rcpt ?mm t = (r, t')"
    by (cases "smtp_with w h p u pw rcpt ?mm t")
  with assms Inr hdr have r: "r = Inr ()" and x: "x"
    by (auto simp: send_configured_def split: sum.splits)
  from sw r have "t' = t @ [SMTP_connect h p, SMTP_starttls, SMTP_login u pw,
          SMTP_sendmail u [rcpt] ?mm, SMTP_quit]"
    using smtp_with_ok [of w h p u pw rcpt ?mm t "()"] by simp
  with sw r x Inr hdr show ?thesis
    by (simp add: send_configured_def)
qed

lemma send_email_True:
  assumes "fst (send_email_via_smtp w n e s m t) = Inr True"
  shows "\<exists>h p u pw rcpt. snd (send_email_via_smtp w n e s m t) =
     t @ [SMTP_connect h p, SMTP_starttls, SMTP_login u pw,
          SMTP_sendmail u [rcpt]
            \<lparr>msg_body = ''Name: '' @ n @ [CHR 0x0A] @ ''Email: '' @ e
                   @ [CHR 0x0A, CHR 0x0A] @ ''Message:'' @ [CHR 0x0A] @ m,
             msg_subject = or_default (Some s) ''New Portfolio Contact Message'',
             msg_from = (n, u), msg_to = rcpt\<rparr>,
          SMTP_quit]"
proof -
  obtain h p u pw rcpt where
    eq: "send_email_via_smtp w n e s m t = send_configured w h p u pw rcpt n e s m t"
    using assms
    by (auto simp: send_email_via_smtp_def Let_def split: option.splits if_splits)
  with assms have "fst (send_configured w h p u pw rcpt n e s m t) = Inr True" by simp
  from send_configured_True [OF this] eq show ?thesis by auto
qed


subsection \<open>The events of one request\<close>

text \<open>
  The handler writes the document first, with the fields of the payload as they are. All
  later events are SMTP calls, any message sent carries the payload's subject or the
  default, and there are SMTP calls only when the store returned.
\<close>

lemma submit_contact_events:
  "\<exists>evs. snd (submit_contact w p t) =
       t @ CreateDocument ''contactmessage''
             \<lparr>doc_name = name p, doc_email = email p, doc_subject = subject p,
              doc_message = message p\<rparr> # evs
     \<and> list_all is_smtp evs
     \<and> list_all (subject_is (or_default (subject p) ''Portfolio Contact'')) evs
     \<and> (list_ex is_smtp evs \<longrightarrow>
          outcome w t (CreateDocument ''contactmessage''
             \<lparr>doc_name = name p, doc_email = email p, doc_subject = subject p,
              doc_message = message p\<rparr>) = None)"
proof -
  let ?d = "CreateDocument ''contactmessage''
             \<lparr>doc_name = name p, doc_email = email p, doc_subject = subject p,
              doc_message = message p\<rparr>"
  let ?s = "or_default (subject p) ''Portfolio Contact''"
  obtain evs where evs:
    "snd (send_email_via_smtp w (name p) (email p) ?s (message p) (t @ [?d])) = (t @ [?d]) @ evs"
    "list_all is_smtp evs"
    "list_all (subject_is (or_default (Some ?s) ''New Portfolio Contact Message'')) evs"
    using send_email_events by blast
  have s: "or_default (Some ?s) ''New Portfolio Contact Message'' = ?s"
    by (simp add: or_default_def split: option.splits)
  show ?thesis
  proof (cases "outcome w t ?d")
    case None
    with evs s show ?thesis
      by (cases "send_email_via_smtp w (name p) (email p) ?s (message p) (t @ [?d])")
         (auto simp: submit_contact_def call_eq Let_def split: sum.splits)
  next
    case (Some e)
    then show ?thesis by (simp add: submit_contact_def call_eq)
  qed
qed

lemmas eval_defs = post_contact_def validate_def submit_contact_def call_eq
  send_email_via_smtp_def send_configured_def smtp_with_def smtp_block_def formataddr_def
  py_int_def is_space_def is_digit_def digit_val_def falsy_def or_default_def
  ada_body_def accepts_ada_def smtp_settings_def unconfigured_world_def configured_world_def
  store_down_world_def bad_login_world_def bad_port_world_def no_host_world_def

subsection \<open>Validation\<close>

text \<open>
  Claim C1, as it is written, fails: it asks that a body with an empty \<open>name\<close> or an
  empty \<open>message\<close> be rejected, but both fields are plain \<open>str\<close> fields of
  \<open>ContactIn\<close> and the empty string is a string. With mail not configured, the request
  of the scenario with its name emptied, and the same request with its message emptied,
  are both answered with status 200, and each leaves its document in the store.
\<close>

theorem empty_name_or_message_accepted:
  "post_contact unconfigured_world (ada_body\<lparr>body_name := Some ''''\<rparr>) [] =
     (Returned \<lparr>ok = True, email_sent = False\<rparr>,
      [CreateDocument ''contactmessage''
         \<lparr>doc_name = '''', doc_email = ''ada@example.com'', doc_subject = None,
          doc_message = ''Hello''\<rparr>])
   \<and> post_contact unconfigured_world (ada_body\<lparr>body_message := Some ''''\<rparr>) [] =
     (Returned \<lparr>ok = True, email_sent = False\<rparr>,
      [CreateDocument ''contactmessage''
         \<lparr>doc_name = ''Ada'', doc_email = ''ada@example.com'', doc_subject = None,
          doc_message = ''''\<rparr>])"
  by (simp add: eval_defs)

text \<open>
  Claim C1, amended: a request whose body lacks \<open>name\<close>, \<open>message\<close> or \<open>email\<close>, or
  whose \<open>email\<close> is not a syntactically valid address, fails with the validation error,
  and no external call is made: the events are the ones before the request.
\<close>

theorem invalid_body_rejected_without_effects:
  assumes "body_name b = None \<or> body_message b = None
           \<or> (case body_email b of None \<Rightarrow> True | Some a \<Rightarrow> validate_email w a = None)"
  shows "post_contact w b t = (RequestValidationError, t)"
  using assms by (auto simp: post_contact_def validate_def split: option.splits)

text \<open>
  The amended claim at a request with the address \<open>ada@example\<close>, which the address
  check of the world rejects, with mail configured and the store up.
\<close>

theorem invalid_body_rejected_without_effects_witness:
  "(case body_email (ada_body\<lparr>body_email := Some ''ada@example''\<rparr>) of
      None \<Rightarrow> True
    | Some a \<Rightarrow> validate_email configured_world a = None)
   \<and> post_contact configured_world (ada_body\<lparr>body_email := Some ''ada@example''\<rparr>) [] =
       (RequestValidationError, [])"
proof -
  have h: "(case body_email (ada_body\<lparr>body_email := Some ''ada@example''\<rparr>) of
              None \<Rightarrow> True
            | Some a \<Rightarrow> validate_email configured_world a = None)"
    by (simp add: ada_body_def configured_world_def accepts_ada_def)
  from h invalid_body_rejected_without_effects
         [of "ada_body\<lparr>body_email := Some ''ada@example''\<rparr>" configured_world "[]"]
  show ?thesis by blast
qed

subsection \<open>Persistence failure\<close>

text \<open>
  Claim C2: when the body validates and \<open>create_document\<close> raises an exception \<open>e\<close>,
  the request fails with status 500; the detail is the label \<open>Database error: \<close>
  followed by the first 120 characters of \<open>str(e)\<close>; and the only external call of the
  request is the write to the store, so the mail relay is not invoked.
\<close>

theorem persistence_failure_is_500_without_mail:
  assumes "validate w b = Some p"
    and "outcome w t (CreateDocument ''contactmessage''
           \<lparr>doc_name = name p, doc_email = email p, doc_subject = subject p,
            doc_message = message p\<rparr>) = Some e"
  shows "post_contact w b t =
     (HTTPException 500 (''Database error: '' @ take 120 (str_exn e)),
      t @ [CreateDocument ''contactmessage''
             \<lparr>doc_name = name p, doc_email = email p, doc_subject = subject p,
              doc_message = message p\<rparr>])"
  using assms by (simp add: post_contact_def submit_contact_def call_eq)

text \<open>Claim C2 at the scenario's request, with mail configured and the store refusing.\<close>

theorem persistence_failure_is_500_without_mail_witness:
  "validate store_down_world ada_body =
     Some \<lparr>name = ''Ada'', email = ''ada@example.com'', subject = None, message = ''Hello''\<rparr>
   \<and> post_contact store_down_world ada_body [] =
     (HTTPException 500 ''Database error: connection refused'',
      [CreateDocument ''contactmessage''
         \<lparr>doc_name = ''Ada'', doc_email = ''ada@example.com'', doc_subject = None,
          doc_message = ''Hello''\<rparr>])"
proof -
  let ?p = "\<lparr>name = ''Ada'', email = ''ada@example.com'', subject = None,
             message = ''Hello''\<rparr>"
  have v: "validate store_down_world ada_body = Some ?p"
    by (simp add: validate_def store_down_world_def ada_body_def accepts_ada_def)
  have o: "outcome store_down_world []
             (CreateDocument ''contactmessage''
                \<lparr>doc_name = name ?p, doc_email = email ?p, doc_subject = subject ?p,
                 doc_message = message ?p\<rparr>) = Some (Error ''connection refused'')"
    by (simp add: store_down_world_def)
  from persistence_failure_is_500_without_mail [OF v o] v show ?thesis by simp
qed

subsection \<open>Notification outcome\<close>

text \<open>
  Claim C3: when the body validates and the store returns, and the mail step does
  anything but return \<open>True\<close> (it returns \<open>False\<close>, which is what it does when mail
  is not configured, or it raises an exception), the handler returns
  \<open>{ok: true, email_sent: false}\<close>.
\<close>

theorem notification_failure_is_swallowed:
  assumes "validate w b = Some p"
    and "outcome w t (CreateDocument ''contactmessage''
           \<lparr>doc_name = name p, doc_email = email p, doc_subject = subject p,
            doc_message = message p\<rparr>) = None"
    and "fst (send_email_via_smtp w (name p) (email p)
                (or_default (subject p) ''Portfolio Contact'') (message p)
                (t @ [CreateDocument ''contactmessage''
                        \<lparr>doc_name = name p, doc_email = email p, doc_subject = subject p,
                         doc_message = message p\<rparr>])) \<noteq> Inr True"
  shows "fst (post_contact w b t) = Returned \<lparr>ok = True, email_sent = False\<rparr>"
  using assms
  by (auto simp: post_contact_def submit_contact_def call_eq split: prod.splits sum.splits)

text \<open>
  Claim C3 at the scenario's request with mail configured and the login refused: the
  answer is \<open>{ok: true, email_sent: false}\<close>, after the write, the connection,
  \<open>STARTTLS\<close>, the login that raises, and \<open>QUIT\<close>.
\<close>

theorem notification_failure_is_swallowed_witness:
  "fst (post_contact bad_login_world ada_body []) = Returned \<lparr>ok = True, email_sent = False\<rparr>
   \<and> snd (post_contact bad_login_world ada_body []) =
      [CreateDocument ''contactmessage''
         \<lparr>doc_name = ''Ada'', doc_email = ''ada@example.com'', doc_subject = None,
          doc_message = ''Hello''\<rparr>,
       SMTP_connect ''smtp.example.com'' 587, SMTP_starttls,
       SMTP_login ''me@example.com'' ''secret'', SMTP_quit]"
proof -
  let ?p = "\<lparr>name = ''Ada'', email = ''ada@example.com'', subject = None,
             message = ''Hello''\<rparr>"
  have v: "validate bad_login_world ada_body = Some ?p"
    by (simp add: validate_def bad_login_world_def ada_body_def accepts_ada_def)
  have o: "outcome bad_login_world []
             (CreateDocument ''contactmessage''
                \<lparr>doc_name = name ?p, doc_email = email ?p, doc_subject = subject ?p,
                 doc_message = message ?p\<rparr>) = None"
    by (simp add: bad_login_world_def)
  have s: "fst (send_email_via_smtp bad_login_world (name ?p) (email ?p)
                (or_default (subject ?p) ''Portfolio Contact'') (message ?p)
                ([] @ [CreateDocument ''contactmessage''
                        \<lparr>doc_name = name ?p, doc_email = email ?p, doc_subject = subject ?p,
                         doc_message = message ?p\<rparr>])) \<noteq> Inr True"
    by (simp add: eval_defs)
  have t: "snd (post_contact bad_login_world ada_body []) =
      [CreateDocument ''contactmessage''
         \<lparr>doc_name = ''Ada'', doc_email = ''ada@example.com'', doc_subject = None,
          doc_message = ''Hello''\<rparr>,
       SMTP_connect ''smtp.example.com'' 587, SMTP_starttls,
       SMTP_login ''me@example.com'' ''secret'', SMTP_quit]"
    by (simp add: eval_defs)
  from notification_failure_is_swallowed [OF v o s] t show ?thesis by simp
qed

text \<open>
  Claim C4: when the body validates, the store returns and the mail step returns
  \<open>True\<close>, the handler returns \<open>{ok: true, email_sent: true}\<close>.
\<close>

theorem both_succeed_email_sent:
  assumes "validate w b = Some p"
    and "outcome w t (CreateDocument ''contactmessage''
           \<lparr>doc_name = name p, doc_email = email p, doc_subject = subject p,
            doc_message = message p\<rparr>) = None"
    and "fst (send_email_via_smtp w (name p) (email p)
                (or_default (subject p) ''Portfolio Contact'') (message p)
                (t @ [CreateDocument ''contactmessage''
                        \<lparr>doc_name = name p, doc_email = email p, doc_subject = subject p,
                         doc_message = message p\<rparr>])) = Inr True"
  shows "fst (post_contact w b t) = Returned \<lparr>ok = True, email_sent = True\<rparr>"
  using assms
  by (auto simp: post_contact_def submit_contact_def call_eq split: prod.splits sum.splits)

text \<open>Claim C4 at the scenario's request, with mail configured and every call succeeding.\<close>

theorem both_succeed_email_sent_witness:
  "validate configured_world ada_body =
     Some \<lparr>name = ''Ada'', email = ''ada@example.com'', subject = None, message = ''Hello''\<rparr>
   \<and> fst (post_contact configured_world ada_body []) =
       Returned \<lparr>ok = True, email_sent = True\<rparr>"
proof -
  let ?p = "\<lparr>name = ''Ada'', email = ''ada@example.com'', subject = None,
             message = ''Hello''\<rparr>"
  have v: "validate configured_world ada_body = Some ?p"
    by (simp add: validate_def configured_world_def ada_body_def accepts_ada_def)
  have o: "outcome configured_world []
             (CreateDocument ''contactmessage''
                \<lparr>doc_name = name ?p, doc_email = email ?p, doc_subject = subject ?p,
                 doc_message = message ?p\<rparr>) = None"
    by (simp add: configured_world_def)
  have s: "fst (send_email_via_smtp configured_world (name ?p) (email ?p)
                (or_default (subject ?p) ''Portfolio Contact'') (message ?p)
                ([] @ [CreateDocument ''contactmessage''
                        \<lparr>doc_name = name ?p, doc_email = email ?p, doc_subject = subject ?p,
                         doc_message = message ?p\<rparr>])) = Inr True"
    by (simp add: eval_defs)
  from both_succeed_email_sent [OF v o s] v show ?thesis by simp
qed

subsection \<open>Order of the two steps\<close>

text \<open>
  Claim C5: among the events of one request, if there is any SMTP call at all, then the
  first event is the write to the store, that write returned without an exception, and
  everything after it is an SMTP call. So the write precedes every notification attempt,
  and no attempt is made unless the store acknowledged the write.
\<close>

theorem store_precedes_mail:
  "\<exists>evs. snd (post_contact w b t) = t @ evs
     \<and> (list_ex is_smtp evs \<longrightarrow>
          (\<exists>d rest. evs = CreateDocument ''contactmessage'' d # rest
             \<and> outcome w t (CreateDocument ''contactmessage'' d) = None
             \<and> list_all is_smtp rest))"
proof (cases "validate w b")
  case None
  then show ?thesis by (simp add: post_contact_def)
next
  case (Some p)
  then show ?thesis
    using submit_contact_events [of w p t] by (auto simp: post_contact_def)
qed

text \<open>Claim C5 at a request that does reach the mail relay.\<close>

theorem store_precedes_mail_witness:
  "list_ex is_smtp (snd (post_contact bad_login_world ada_body []))
   \<and> (\<exists>d rest. snd (post_contact bad_login_world ada_body []) =
                   CreateDocument ''contactmessage'' d # rest
          \<and> outcome bad_login_world [] (CreateDocument ''contactmessage'' d) = None
          \<and> list_all is_smtp rest)"
proof -
  have t: "snd (post_contact bad_login_world ada_body []) =
      [CreateDocument ''contactmessage''
         \<lparr>doc_name = ''Ada'', doc_email = ''ada@example.com'', doc_subject = None,
          doc_message = ''Hello''\<rparr>,
       SMTP_connect ''smtp.example.com'' 587, SMTP_starttls,
       SMTP_login ''me@example.com'' ''secret'', SMTP_quit]"
    by (simp add: eval_defs)
  then have e: "list_ex is_smtp (snd (post_contact bad_login_world ada_body []))"
    by simp
  from store_precedes_mail [of bad_login_world ada_body "[]"] e show ?thesis by auto
qed

subsection \<open>The configuration test of the mail relay\<close>




subsection \<open>The subject of the document and of the message\<close>

text \<open>
  Claim C7: for a body that validates, the first event of the request is the write of a
  document whose subject is the subject of the body as submitted (so \<open>None\<close> when the body
  has none); no later event is a write; and when the body has no subject, any message
  sent carries the default subject \<open>Portfolio Contact\<close>, which therefore appears in the
  mail only.
\<close>

theorem document_keeps_submitted_subject:
  assumes "validate w b = Some p"
  shows "\<exists>evs. snd (post_contact w b t) =
           t @ CreateDocument ''contactmessage''
                 \<lparr>doc_name = name p, doc_email = email p, doc_subject = body_subject b,
                  doc_message = message p\<rparr> # evs
     \<and> list_all is_smtp evs
     \<and> (body_subject b = None \<longrightarrow> list_all (subject_is ''Portfolio Contact'') evs)"
proof -
  from assms have s: "subject p = body_subject b"
    by (auto simp: validate_def split: option.splits)
  have "body_subject b = None \<Longrightarrow>
          or_default (subject p) ''Portfolio Contact'' = ''Portfolio Contact''"
    using s by (simp add: or_default_def)
  then show ?thesis
    using submit_contact_events [of w p t] assms s by (auto simp: post_contact_def)
qed

text \<open>
  Claim C7 at the scenario of the specification: the request without a subject, mail not
  configured. One document with subject \<open>None\<close> is stored and the answer is
  \<open>{ok: true, email_sent: false}\<close>.
\<close>

theorem document_keeps_submitted_subject_witness:
  "body_subject ada_body = None
   \<and> snd (post_contact unconfigured_world ada_body []) =
     [CreateDocument ''contactmessage''
        \<lparr>doc_name = ''Ada'', doc_email = ''ada@example.com'', doc_subject = None,
         doc_message = ''Hello''\<rparr>]
   \<and> fst (post_contact unconfigured_world ada_body []) =
       Returned \<lparr>ok = True, email_sent = False\<rparr>"
proof -
  let ?p = "\<lparr>name = ''Ada'', email = ''ada@example.com'', subject = None,
             message = ''Hello''\<rparr>"
  have v: "validate unconfigured_world ada_body = Some ?p"
    by (simp add: validate_def unconfigured_world_def ada_body_def accepts_ada_def)
  have r: "post_contact unconfigured_world ada_body [] =
     (Returned \<lparr>ok = True, email_sent = False\<rparr>,
      [CreateDocument ''contactmessage''
         \<lparr>doc_name = ''Ada'', doc_email = ''ada@example.com'', doc_subject = None,
          doc_message = ''Hello''\<rparr>])"
    by (simp add: eval_defs)
  have n: "body_subject ada_body = None" by (simp add: ada_body_def)
  from document_keeps_submitted_subject [OF v, of "[]"] r n show ?thesis by simp
qed

text \<open>
  Claim C10: for a body that validates and whose subject is the empty string, the document
  written has the empty string as its subject; any message sent carries the subject
  \<open>Portfolio Contact\<close>; and when the answer says the mail was sent, the events after the
  write are one complete SMTP session whose message has that subject.
\<close>

theorem empty_subject_stored_default_sent:
  assumes "validate w b = Some p" and "body_subject b = Some []"
  shows "\<exists>evs. snd (post_contact w b t) =
           t @ CreateDocument ''contactmessage''
                 \<lparr>doc_name = name p, doc_email = email p, doc_subject = Some [],
                  doc_message = message p\<rparr> # evs
     \<and> list_all (subject_is ''Portfolio Contact'') evs
     \<and> (fst (post_contact w b t) = Returned \<lparr>ok = True, email_sent = True\<rparr> \<longrightarrow>
          (\<exists>h port u pw rcpt. evs =
             [SMTP_connect h port, SMTP_starttls, SMTP_login u pw,
              SMTP_sendmail u [rcpt]
                \<lparr>msg_body = ''Name: '' @ name p @ [CHR 0x0A] @ ''Email: '' @ email p
                     @ [CHR 0x0A, CHR 0x0A] @ ''Message:'' @ [CHR 0x0A] @ message p,
                 msg_subject = ''Portfolio Contact'',
                 msg_from = (name p, u), msg_to = rcpt\<rparr>,
              SMTP_quit]))"
proof -
  let ?d = "CreateDocument ''contactmessage''
             \<lparr>doc_name = name p, doc_email = email p, doc_subject = subject p,
              doc_message = message p\<rparr>"
  from assms have s: "subject p = Some []"
    by (auto simp: validate_def split: option.splits)
  then have d: "or_default (subject p) ''Portfolio Contact'' = ''Portfolio Contact''"
    by (simp add: or_default_def)
  have d2: "or_default (Some ''Portfolio Contact'') ''New Portfolio Contact Message''
              = ''Portfolio Contact''"
    by (simp add: or_default_def)
  obtain evs where evs: "snd (submit_contact w p t) = t @ ?d # evs"
     "list_all (subject_is ''Portfolio Contact'') evs"
    using submit_contact_events [of w p t] d by auto
  have sent: "\<exists>h port u pw rcpt. evs =
             [SMTP_connect h port, SMTP_starttls, SMTP_login u pw,
              SMTP_sendmail u [rcpt]
                \<lparr>msg_body = ''Name: '' @ name p @ [CHR 0x0A] @ ''Email: '' @ email p
                     @ [CHR 0x0A, CHR 0x0A] @ ''Message:'' @ [CHR 0x0A] @ message p,
                 msg_subject = ''Portfolio Contact'',
                 msg_from = (name p, u), msg_to = rcpt\<rparr>,
              SMTP_quit]"
    if r: "fst (submit_contact w p t) = Returned \<lparr>ok = True, email_sent = True\<rparr>"
  proof -
    let ?send = "send_email_via_smtp w (name p) (email p) ''Portfolio Contact'' (message p)
                   (t @ [?d])"
    from r d have o: "outcome w t ?d = None"
      by (auto simp: submit_contact_def call_eq Let_def split: option.splits)
    with r d have f: "fst ?send = Inr True"
      by (auto simp: submit_contact_def call_eq Let_def split: prod.splits sum.splits)
    from o d have "snd (submit_contact w p t) = snd ?send"
      by (auto simp: submit_contact_def call_eq Let_def split: prod.splits sum.splits)
    with send_email_True [OF f] evs(1) d2 show ?thesis by auto
  qed
  from evs sent s assms(1) show ?thesis
    by (auto simp: post_contact_def)
qed

text \<open>
  Claim C10 at the scenario's request with the subject set to the empty string, mail
  configured and every call succeeding.
\<close>

theorem empty_subject_stored_default_sent_witness:
  "validate configured_world (ada_body\<lparr>body_subject := Some []\<rparr>) =
     Some \<lparr>name = ''Ada'', email = ''ada@example.com'', subject = Some [], message = ''Hello''\<rparr>
   \<and> fst (post_contact configured_world (ada_body\<lparr>body_subject := Some []\<rparr>) []) =
       Returned \<lparr>ok = True, email_sent = True\<rparr>
   \<and> (\<exists>h port u pw rcpt.
         snd (post_contact configured_world (ada_body\<lparr>body_subject := Some []\<rparr>) []) =
           [CreateDocument ''contactmessage''
              \<lparr>doc_name = ''Ada'', doc_email = ''ada@example.com'', doc_subject = Some [],
               doc_message = ''Hello''\<rparr>,
            SMTP_connect h port, SMTP_starttls, SMTP_login u pw,
            SMTP_sendmail u [rcpt]
              \<lparr>msg_body = ''Name: Ada'' @ [CHR 0x0A] @ ''Email: ada@example.com''
                   @ [CHR 0x0A, CHR 0x0A] @ ''Message:'' @ [CHR 0x0A] @ ''Hello'',
               msg_subject = ''Portfolio Contact'',
               msg_from = (''Ada'', u), msg_to = rcpt\<rparr>,
            SMTP_quit])"
proof -
  let ?b = "ada_body\<lparr>body_subject := Some []\<rparr>"
  let ?p = "\<lparr>name = ''Ada'', email = ''ada@example.com'', subject = Some [],
             message = ''Hello''\<rparr>"
  have v: "validate configured_world ?b = Some ?p"
    by (simp add: validate_def configured_world_def ada_body_def accepts_ada_def)
  have s: "body_subject ?b = Some []" by simp
  have f: "fst (post_contact configured_world ?b []) =
             Returned \<lparr>ok = True, email_sent = True\<rparr>"
    by (simp add: eval_defs)
  from empty_subject_stored_default_sent [OF v s, of "[]"] f v show ?thesis
    by auto
qed

subsection \<open>What a returned result means\<close>

text \<open>
  Claim C9: whenever the handler returns a result, its \<open>ok\<close> is true, the body had
  validated and the write to the store had returned without an exception. A failed
  submission is never a returned result.
\<close>

theorem returned_result_is_ok:
  assumes "fst (post_contact w b t) = Returned r"
  shows "ok r \<and> (\<exists>p. validate w b = Some p
            \<and> outcome w t (CreateDocument ''contactmessage''
                 \<lparr>doc_name = name p, doc_email = email p, doc_subject = subject p,
                  doc_message = message p\<rparr>) = None)"
  using assms
  by (auto simp: post_contact_def submit_contact_def call_eq Let_def
           split: option.splits sum.splits prod.splits)

text \<open>Claim C9 at the scenario's request, with mail not configured.\<close>

theorem returned_result_is_ok_witness:
  "fst (post_contact unconfigured_world ada_body []) =
     Returned \<lparr>ok = True, email_sent = False\<rparr>
   \<and> ok \<lparr>ok = True, email_sent = False\<rparr>
   \<and> (\<exists>p. validate unconfigured_world ada_body = Some p
            \<and> outcome unconfigured_world [] (CreateDocument ''contactmessage''
                 \<lparr>doc_name = name p, doc_email = email p, doc_subject = subject p,
                  doc_message = message p\<rparr>) = None)"
proof -
  have f: "fst (post_contact unconfigured_world ada_body []) =
             Returned \<lparr>ok = True, email_sent = False\<rparr>"
    by (simp add: eval_defs)
  from returned_result_is_ok [OF f] f show ?thesis by simp
qed

subsection \<open>The probe of the document store\<close>

text \<open>
  Claim C8: whatever the import of \<open>db\<close> does (it raises \<open>ImportError\<close> or any other
  exception, or binds \<open>None\<close> or a handle) and whatever the listing of the collections
  does, \<open>test_database\<close> returns a dictionary and raises nothing. The dictionary has
  exactly the six keys it starts with, and its \<open>database\<close> entry is a status text, which
  holds the first 50 characters of the text of an exception that was caught.
\<close>

theorem test_database_never_raises:
  "\<exists>r. test_database w imp = Inr r
     \<and> dom r = {''backend'', ''database'', ''database_url'', ''database_name'',
                ''connection_status'', ''collections''}
     \<and> r ''database'' = Some (JString
          (case imp of
             ImportRaises e \<Rightarrow>
               (case e of
                  ImportError s \<Rightarrow>
                    cross_mark @ '' Database module not found (run enable-database first)''
                | _ \<Rightarrow> cross_mark @ '' Error: '' @ take 50 (str_exn e))
           | Imported None \<Rightarrow> warning_sign @ ''  Available but not initialized''
           | Imported (Some db) \<Rightarrow>
               (case list_collection_names db of
                  Inl e \<Rightarrow> warning_sign @ ''  Connected but Error: '' @ take 50 (str_exn e)
                | Inr cs \<Rightarrow> check_mark @ '' Connected & Working'')))"
proof (cases imp)
  case (ImportRaises e)
  then show ?thesis
    by (cases e) (auto simp: test_database_def try_import_def)
next
  case (Imported d)
  show ?thesis
  proof (cases d)
    case None
    with Imported show ?thesis
      by (auto simp: test_database_def try_import_def)
  next
    case (Some db)
    with Imported show ?thesis
      by (cases "list_collection_names db")
         (auto simp: test_database_def try_import_def probe_collections_def)
  qed
qed

end
